theory Spec2Isabelle
  imports Main
begin

section \<open>The command \<open>blueprints add execution\<close> of landscapercli\<close>

text \<open>
  A shallow embedding of \<^verbatim>\<open>cmd/blueprints/add_execution.go\<close>. The Go methods of
  \<^verbatim>\<open>addExecutionOptions\<close> become functions over the options record; the file system the
  command reads and writes is an explicit value that every effectful method takes and
  returns; every \<^verbatim>\<open>return err\<close> of the source is a branch that yields the error.
\<close>

subsection \<open>Data\<close>

text \<open>
  \<^verbatim>\<open>core.TemplateExecutor\<close> and \<^verbatim>\<open>core.Blueprint\<close> are declared in the landscaper module.
  The command reads and writes the fields below; the remaining fields of a blueprint are
  the extension part of the record, which no function of this file touches.
\<close>

record TemplateExecutor =
  Name :: string
  Type :: string
  File :: string

record Blueprint =
  DeployExecutions :: "TemplateExecutor list"

record addExecutionOptions =
  blueprintPath :: string
  name :: string

text \<open>
  Errors. The operating system's errors are split by what the source asks of them
  (\<^verbatim>\<open>os.IsNotExist\<close>); the two errors the command builds itself carry the formatted
  message of \<^verbatim>\<open>fmt.Errorf\<close>; the two codecs fail with an error of their own.
\<close>

datatype error =
    NotExist string
  | IOError string
  | DecodeError
  | MarshalError
  | Errorf string

fun os_IsNotExist :: "error \<Rightarrow> bool" where
  "os_IsNotExist (NotExist p) = True"
| "os_IsNotExist e = False"

subsection \<open>The file system\<close>

text \<open>
  A path holds a regular file with its content, a directory, or nothing. Besides the
  nodes, the world says which system calls fail for reasons the node map does not show
  (permissions, a full disk): \<open>write_fault w p = Some n\<close> is a write to \<open>p\<close> that fails
  after \<open>n\<close> bytes.
\<close>

datatype node = RegularFile string | Directory

record world =
  nodes :: "string \<Rightarrow> node option"
  stat_fault :: "string \<Rightarrow> bool"
  read_fault :: "string \<Rightarrow> bool"
  create_fault :: "string \<Rightarrow> bool"
  write_fault :: "string \<Rightarrow> nat option"

text \<open>\<^verbatim>\<open>os.Stat\<close>: the node at the path, or an error.\<close>

definition os_Stat :: "world \<Rightarrow> string \<Rightarrow> error + node" where
  "os_Stat w p =
     (if stat_fault w p then Inl (IOError p)
      else case nodes w p of
             None \<Rightarrow> Inl (NotExist p)
           | Some n \<Rightarrow> Inr n)"

fun IsDir :: "node \<Rightarrow> bool" where
  "IsDir Directory = True"
| "IsDir (RegularFile c) = False"

text \<open>\<^verbatim>\<open>ioutil.ReadFile\<close>: the content of a regular file, or an error.\<close>

definition ioutil_ReadFile :: "world \<Rightarrow> string \<Rightarrow> error + string" where
  "ioutil_ReadFile w p =
     (if read_fault w p then Inl (IOError p)
      else case nodes w p of
             None \<Rightarrow> Inl (NotExist p)
           | Some Directory \<Rightarrow> Inl (IOError p)
           | Some (RegularFile c) \<Rightarrow> Inr c)"

text \<open>
  \<^verbatim>\<open>os.Create\<close> opens with \<^verbatim>\<open>O_RDWR|O_CREATE|O_TRUNC\<close>: an absent file is created
  empty, a present one is truncated, a directory is an error.
\<close>

definition os_Create :: "world \<Rightarrow> string \<Rightarrow> error + world" where
  "os_Create w p =
     (if create_fault w p then Inl (IOError p)
      else case nodes w p of
             Some Directory \<Rightarrow> Inl (IOError p)
           | _ \<Rightarrow> Inr (w\<lparr>nodes := (nodes w)(p \<mapsto> RegularFile [])\<rparr>))"

text \<open>\<^verbatim>\<open>f.Write\<close> and \<^verbatim>\<open>f.WriteString\<close> on the file just created at the path.\<close>

definition file_Write :: "world \<Rightarrow> string \<Rightarrow> string \<Rightarrow> error option \<times> world" where
  "file_Write w p data =
     (case write_fault w p of
        None \<Rightarrow> (None, w\<lparr>nodes := (nodes w)(p \<mapsto> RegularFile data)\<rparr>)
      | Some n \<Rightarrow> (Some (IOError p), w\<lparr>nodes := (nodes w)(p \<mapsto> RegularFile (take n data))\<rparr>))"

subsection \<open>What the command takes from other packages\<close>

text \<open>
  The source calls \<^verbatim>\<open>filepath.Join\<close>, the decoder of the landscaper scheme and
  \<^verbatim>\<open>yaml.Marshal\<close>, and names two constants declared elsewhere:
  \<^verbatim>\<open>lsv1alpha1.BlueprintFileName\<close> (read) and \<^verbatim>\<open>blueprintFilename\<close> of the package
  (written). They are parameters of the model.
\<close>

record 'a platform =
  filepath_Join :: "string \<Rightarrow> string \<Rightarrow> string"
  BlueprintFileName :: string
  blueprintFilename :: string
  Decode :: "string \<Rightarrow> 'a Blueprint_scheme option"
  yaml_Marshal :: "'a Blueprint_scheme \<Rightarrow> string option"

subsection \<open>The methods of \<^verbatim>\<open>addExecutionOptions\<close>\<close>

text \<open>
  \<^verbatim>\<open>Complete\<close> stores the two arguments and returns \<^verbatim>\<open>nil\<close>. Indexing a slice beyond
  its length panics: that is the result \<open>None\<close>.
\<close>

fun Complete ::
  "addExecutionOptions \<Rightarrow> string list \<Rightarrow> (addExecutionOptions \<times> error option) option" where
  "Complete o1 (a0 # a1 # as) = Some (o1\<lparr>blueprintPath := a0, name := a1\<rparr>, None)"
| "Complete o1 as = None"

definition getExecutionFileName :: "addExecutionOptions \<Rightarrow> string" where
  "getExecutionFileName o1 = name o1 @ ''DeployExecution.yaml''"

definition getExecutionFilePath :: "'a platform \<Rightarrow> addExecutionOptions \<Rightarrow> string" where
  "getExecutionFilePath P o1 = filepath_Join P (blueprintPath o1) (getExecutionFileName o1)"

definition readBlueprint ::
  "'a platform \<Rightarrow> addExecutionOptions \<Rightarrow> world \<Rightarrow> error + 'a Blueprint_scheme" where
  "readBlueprint P o1 w =
     (case ioutil_ReadFile w (filepath_Join P (blueprintPath o1) (BlueprintFileName P)) of
        Inl e \<Rightarrow> Inl e
      | Inr data \<Rightarrow>
          (case Decode P data of
             None \<Rightarrow> Inl DecodeError
           | Some blueprint \<Rightarrow> Inr blueprint))"

definition writeBlueprint ::
  "'a platform \<Rightarrow> addExecutionOptions \<Rightarrow> 'a Blueprint_scheme \<Rightarrow> world \<Rightarrow> error option \<times> world" where
  "writeBlueprint P o1 blueprint w =
     (case yaml_Marshal P blueprint of
        None \<Rightarrow> (Some MarshalError, w)
      | Some data \<Rightarrow>
          (let blueprintFilePath = filepath_Join P (blueprintPath o1) (blueprintFilename P)
           in case os_Create w blueprintFilePath of
                Inl e \<Rightarrow> (Some e, w)
              | Inr w1 \<Rightarrow> file_Write w1 blueprintFilePath data))"

text \<open>The loop of \<^verbatim>\<open>existsExecution\<close> over the execution list, first match returns.\<close>

fun existsExecution_loop :: "string \<Rightarrow> TemplateExecutor list \<Rightarrow> bool" where
  "existsExecution_loop n [] = False"
| "existsExecution_loop n (execution # rest) =
     (if Name execution = n then True else existsExecution_loop n rest)"

definition existsExecution :: "addExecutionOptions \<Rightarrow> 'a Blueprint_scheme \<Rightarrow> bool" where
  "existsExecution o1 blueprint = existsExecution_loop (name o1) (DeployExecutions blueprint)"

definition addExecution ::
  "addExecutionOptions \<Rightarrow> 'a Blueprint_scheme \<Rightarrow> 'a Blueprint_scheme" where
  "addExecution o1 blueprint =
     blueprint\<lparr>DeployExecutions :=
       DeployExecutions blueprint @
         [\<lparr>Name = name o1, Type = ''GoTemplate'', File = ''/'' @ getExecutionFileName o1\<rparr>]\<rparr>"

text \<open>\<^verbatim>\<open>existsExecutionFile\<close> returns the pair \<^verbatim>\<open>(bool, error)\<close> of the source.\<close>

definition existsExecutionFile ::
  "'a platform \<Rightarrow> addExecutionOptions \<Rightarrow> world \<Rightarrow> bool \<times> error option" where
  "existsExecutionFile P o1 w =
     (case os_Stat w (getExecutionFilePath P o1) of
        Inl e \<Rightarrow> (if os_IsNotExist e then (False, None) else (False, Some e))
      | Inr fileInfo \<Rightarrow>
          (if IsDir fileInfo
           then (True, Some (Errorf (''There already exists a directory '' @
                                     getExecutionFileName o1 @ ''\<newline>'')))
           else (True, None)))"

definition createExecutionFile ::
  "'a platform \<Rightarrow> addExecutionOptions \<Rightarrow> world \<Rightarrow> error option \<times> world" where
  "createExecutionFile P o1 w =
     (case os_Create w (getExecutionFilePath P o1) of
        Inl e \<Rightarrow> (Some e, w)
      | Inr w1 \<Rightarrow> file_Write w1 (getExecutionFilePath P o1) ''deployItems: []\<newline>'')"

text \<open>
  \<^verbatim>\<open>run\<close>. The outcome is the returned error (\<open>None\<close> is \<^verbatim>\<open>nil\<close>), the blueprint
  value behind the pointer \<^verbatim>\<open>blueprint\<close> when \<^verbatim>\<open>run\<close> returns (\<open>None\<close> when none was
  loaded), and the file system it leaves.
\<close>

record 'a outcome =
  err :: "error option"
  mem :: "'a Blueprint_scheme option"
  disk :: world

definition run :: "'a platform \<Rightarrow> addExecutionOptions \<Rightarrow> world \<Rightarrow> 'a outcome" where
  "run P o1 w =
     (case readBlueprint P o1 w of
        Inl e \<Rightarrow> \<lparr>err = Some e, mem = None, disk = w\<rparr>
      | Inr blueprint \<Rightarrow>
          if existsExecution o1 blueprint
          then \<lparr>err = Some (Errorf (''The blueprint already contains a deploy execution '' @
                                    name o1 @ ''\<newline>'')),
                mem = Some blueprint, disk = w\<rparr>
          else
            (case existsExecutionFile P o1 w of
               (exists, Some e) \<Rightarrow> \<lparr>err = Some e, mem = Some blueprint, disk = w\<rparr>
             | (exists, None) \<Rightarrow>
                 (case (if \<not> exists then createExecutionFile P o1 w else (None, w)) of
                    (Some e, w1) \<Rightarrow> \<lparr>err = Some e, mem = Some blueprint, disk = w1\<rparr>
                  | (None, w1) \<Rightarrow>
                      (case writeBlueprint P o1 (addExecution o1 blueprint) w1 of
                         (e, w2) \<Rightarrow>
                           \<lparr>err = e, mem = Some (addExecution o1 blueprint), disk = w2\<rparr>))))"

subsection \<open>Concrete inputs\<close>

text \<open>
  A platform to run the model on: paths are joined with a slash, both constants are
  \<^verbatim>\<open>blueprint.yaml\<close>, and a toy codec writes one line per execution and reads back
  the two documents the scenarios below store.
\<close>

definition toy_Join :: "string \<Rightarrow> string \<Rightarrow> string" where
  "toy_Join dir file = dir @ ''/'' @ file"

definition toy_line :: "TemplateExecutor \<Rightarrow> string" where
  "toy_line e = Name e @ '' '' @ Type e @ '' '' @ File e @ ''\<newline>''"

definition toy_Marshal :: "Blueprint \<Rightarrow> string option" where
  "toy_Marshal blueprint = Some (concat (map toy_line (DeployExecutions blueprint)))"

definition default_execution :: TemplateExecutor where
  "default_execution =
     \<lparr>Name = ''default'', Type = ''GoTemplate'', File = ''/defaultDeployExecution.yaml''\<rparr>"

definition toy_Decode :: "string \<Rightarrow> Blueprint option" where
  "toy_Decode data =
     (if data = [] then Some \<lparr>DeployExecutions = []\<rparr>
      else if data = ''default GoTemplate /defaultDeployExecution.yaml\<newline>''
      then Some \<lparr>DeployExecutions = [default_execution]\<rparr>
      else None)"

definition toy_platform :: "unit platform" where
  "toy_platform =
     \<lparr>filepath_Join = toy_Join,
      BlueprintFileName = ''blueprint.yaml'',
      blueprintFilename = ''blueprint.yaml'',
      Decode = toy_Decode,
      yaml_Marshal = toy_Marshal\<rparr>"

definition default_options :: addExecutionOptions where
  "default_options = \<lparr>blueprintPath = ''bp'', name = ''default''\<rparr>"

definition empty_name_options :: addExecutionOptions where
  "empty_name_options = \<lparr>blueprintPath = ''bp'', name = []\<rparr>"

text \<open>A world without faults that holds the given nodes.\<close>

definition no_fault :: "string \<Rightarrow> bool" where
  "no_fault p = False"

definition no_write_fault :: "string \<Rightarrow> nat option" where
  "no_write_fault p = None"

definition world_of :: "(string \<times> node) list \<Rightarrow> world" where
  "world_of ns =
     \<lparr>nodes = map_of ns, stat_fault = no_fault, read_fault = no_fault,
      create_fault = no_fault, write_fault = no_write_fault\<rparr>"

text \<open>Scenario A: a directory without a blueprint file.\<close>

definition scenario_A :: world where
  "scenario_A = world_of [(''bp'', Directory)]"

text \<open>Scenario B: a blueprint without executions, no companion file.\<close>

definition scenario_B :: world where
  "scenario_B = world_of [(''bp'', Directory), (''bp/blueprint.yaml'', RegularFile [])]"

text \<open>Scenario C: the blueprint lists \<^verbatim>\<open>default\<close> and its companion file is there.\<close>

definition scenario_C :: world where
  "scenario_C = world_of
     [(''bp'', Directory),
      (''bp/blueprint.yaml'',
         RegularFile ''default GoTemplate /defaultDeployExecution.yaml\<newline>''),
      (''bp/defaultDeployExecution.yaml'', RegularFile ''deployItems: []\<newline>'')]"

text \<open>Scenario D: a directory sits at the companion path.\<close>

definition scenario_D :: world where
  "scenario_D = world_of
     [(''bp'', Directory), (''bp/blueprint.yaml'', RegularFile []),
      (''bp/defaultDeployExecution.yaml'', Directory)]"

text \<open>Scenario E: the companion file is there already, with content of its own.\<close>

definition scenario_E :: world where
  "scenario_E = world_of
     [(''bp'', Directory), (''bp/blueprint.yaml'', RegularFile []),
      (''bp/defaultDeployExecution.yaml'', RegularFile ''deployItems: [kept]'')]"

section \<open>Properties\<close>

subsection \<open>Auxiliary facts\<close>

lemmas model_defs =
  run_def readBlueprint_def writeBlueprint_def existsExecution_def addExecution_def
  existsExecutionFile_def createExecutionFile_def getExecutionFilePath_def
  getExecutionFileName_def os_Stat_def os_Create_def file_Write_def ioutil_ReadFile_def

lemmas toy_defs =
  toy_platform_def toy_Join_def toy_Marshal_def toy_Decode_def toy_line_def
  default_execution_def default_options_def world_of_def no_fault_def no_write_fault_def

lemma existsExecution_loop_iff:
  "existsExecution_loop n es \<longleftrightarrow> n \<in> set (map Name es)"
  by (induction es) auto

lemma existsExecution_iff:
  "existsExecution o1 blueprint \<longleftrightarrow> name o1 \<in> set (map Name (DeployExecutions blueprint))"
  by (simp add: existsExecution_def existsExecution_loop_iff)

lemma run_success:
  assumes "readBlueprint P o1 w = Inr blueprint" and "err (run P o1 w) = None"
  shows "\<not> existsExecution o1 blueprint"
    and "mem (run P o1 w) = Some (addExecution o1 blueprint)"
    and "\<exists>w1. writeBlueprint P o1 (addExecution o1 blueprint) w1 = (None, disk (run P o1 w))"
  using assms
  by (auto simp: run_def split: if_splits prod.splits option.splits)

lemma writeBlueprint_success:
  assumes "writeBlueprint P o1 b w = (None, w')"
  shows "nodes w' = (nodes w)(filepath_Join P (blueprintPath o1) (blueprintFilename P) :=
            map_option RegularFile (yaml_Marshal P b))"
    and "yaml_Marshal P b \<noteq> None"
  using assms
  by (auto simp: writeBlueprint_def os_Create_def file_Write_def Let_def
           split: option.splits sum.splits if_splits node.splits)

lemma existsExecutionFile_Directory:
  assumes "nodes w (getExecutionFilePath P o1) = Some Directory"
    and "\<not> stat_fault w (getExecutionFilePath P o1)"
  shows "existsExecutionFile P o1 w =
           (True, Some (Errorf (''There already exists a directory '' @
                                name o1 @ ''DeployExecution.yaml\<newline>'')))"
  using assms by (simp add: existsExecutionFile_def os_Stat_def getExecutionFileName_def)

lemma run_existsExecutionFile_error:
  assumes "readBlueprint P o1 w = Inr blueprint" and "\<not> existsExecution o1 blueprint"
    and "existsExecutionFile P o1 w = (exists, Some e)"
  shows "run P o1 w = \<lparr>err = Some e, mem = Some blueprint, disk = w\<rparr>"
  using assms by (simp add: run_def)

lemma toy_companion_path:
  "getExecutionFilePath toy_platform default_options = ''bp/defaultDeployExecution.yaml''"
  by (simp add: model_defs toy_defs)

lemma run_mem_cases:
  assumes "readBlueprint P o1 w = Inr blueprint"
  shows "mem (run P o1 w) = Some blueprint \<or>
         (\<not> existsExecution o1 blueprint \<and> mem (run P o1 w) = Some (addExecution o1 blueprint))"
  using assms
  by (auto simp: run_def split: if_splits prod.splits option.splits)

lemma distinct_addExecution:
  assumes "distinct (map Name (DeployExecutions blueprint))"
    and "\<not> existsExecution o1 blueprint"
  shows "distinct (map Name (DeployExecutions (addExecution o1 blueprint)))"
  using assms by (simp add: addExecution_def existsExecution_iff)

lemma os_Create_nodes:
  "os_Create w p = Inr w1 \<Longrightarrow> q \<noteq> p \<Longrightarrow> nodes w1 q = nodes w q"
  by (auto simp: os_Create_def split: if_splits option.splits node.splits)

lemma file_Write_nodes:
  "q \<noteq> p \<Longrightarrow> nodes (snd (file_Write w p data)) q = nodes w q"
  by (auto simp: file_Write_def split: option.splits)

lemma writeBlueprint_frame:
  assumes "q \<noteq> filepath_Join P (blueprintPath o1) (blueprintFilename P)"
  shows "nodes (snd (writeBlueprint P o1 b w)) q = nodes w q"
  using assms
  by (auto simp: writeBlueprint_def Let_def file_Write_nodes os_Create_nodes
           split: option.splits sum.splits)

lemma run_file_present:
  assumes "readBlueprint P o1 w = Inr blueprint" and "\<not> existsExecution o1 blueprint"
    and "existsExecutionFile P o1 w = (True, None)"
  shows "run P o1 w =
           \<lparr>err = fst (writeBlueprint P o1 (addExecution o1 blueprint) w),
            mem = Some (addExecution o1 blueprint),
            disk = snd (writeBlueprint P o1 (addExecution o1 blueprint) w)\<rparr>"
  using assms by (simp add: run_def split: prod.splits)

lemma run_file_absent:
  assumes "readBlueprint P o1 w = Inr blueprint" and "\<not> existsExecution o1 blueprint"
    and "existsExecutionFile P o1 w = (False, None)"
  shows "run P o1 w =
           (case createExecutionFile P o1 w of
              (Some e, w1) \<Rightarrow> \<lparr>err = Some e, mem = Some blueprint, disk = w1\<rparr>
            | (None, w1) \<Rightarrow>
                \<lparr>err = fst (writeBlueprint P o1 (addExecution o1 blueprint) w1),
                 mem = Some (addExecution o1 blueprint),
                 disk = snd (writeBlueprint P o1 (addExecution o1 blueprint) w1)\<rparr>)"
  using assms by (simp add: run_def split: prod.splits option.splits)

lemma run_disk_cases:
  "disk (run P o1 w) = w \<or>
   (existsExecutionFile P o1 w = (False, None) \<and>
      (disk (run P o1 w) = snd (createExecutionFile P o1 w) \<or>
       (\<exists>b. disk (run P o1 w) = snd (writeBlueprint P o1 b (snd (createExecutionFile P o1 w)))))) \<or>
   (existsExecutionFile P o1 w = (True, None) \<and>
      (\<exists>b. disk (run P o1 w) = snd (writeBlueprint P o1 b w)))"
proof (cases "readBlueprint P o1 w")
  case (Inl e)
  then show ?thesis by (simp add: run_def)
next
  case (Inr blueprint)
  show ?thesis
  proof (cases "existsExecution o1 blueprint")
    case True
    with Inr show ?thesis by (simp add: run_def)
  next
    case False
    obtain ex eo where x: "existsExecutionFile P o1 w = (ex, eo)"
      by (cases "existsExecutionFile P o1 w")
    show ?thesis
    proof (cases eo)
      case (Some e)
      with run_existsExecutionFile_error[OF Inr False] x show ?thesis by simp
    next
      case None
      show ?thesis
      proof (cases ex)
        case True
        with x None run_file_present[OF Inr False] show ?thesis by auto
      next
        case False
        with x None have xf: "existsExecutionFile P o1 w = (False, None)" by simp
        from run_file_absent[OF Inr \<open>\<not> existsExecution o1 blueprint\<close> xf] xf
        show ?thesis by (auto split: prod.splits option.splits)
      qed
    qed
  qed
qed

lemma existsExecutionFile_False:
  "existsExecutionFile P o1 w = (False, None) \<Longrightarrow> nodes w (getExecutionFilePath P o1) = None"
  by (auto simp: existsExecutionFile_def os_Stat_def split: if_splits sum.splits option.splits)

lemma existsExecutionFile_NotExist:
  assumes "os_Stat w (getExecutionFilePath P o1) = Inl e" and "os_IsNotExist e"
  shows "existsExecutionFile P o1 w = (False, None)"
  using assms by (simp add: existsExecutionFile_def)

lemma os_Stat_NotExist:
  assumes "os_Stat w p = Inl e" and "os_IsNotExist e"
  shows "nodes w p = None"
  using assms by (auto simp: os_Stat_def split: if_splits option.splits)

lemma createExecutionFile_absent:
  assumes "nodes w (getExecutionFilePath P o1) = None"
  shows "createExecutionFile P o1 w =
     (if create_fault w (getExecutionFilePath P o1)
      then (Some (IOError (getExecutionFilePath P o1)), w)
      else case write_fault w (getExecutionFilePath P o1) of
             None \<Rightarrow> (None, w\<lparr>nodes := (nodes w)(getExecutionFilePath P o1 \<mapsto>
                                   RegularFile ''deployItems: []\<newline>'')\<rparr>)
           | Some n \<Rightarrow> (Some (IOError (getExecutionFilePath P o1)),
                        w\<lparr>nodes := (nodes w)(getExecutionFilePath P o1 \<mapsto>
                                   RegularFile (take n ''deployItems: []\<newline>''))\<rparr>))"
  using assms
  by (simp add: createExecutionFile_def os_Create_def file_Write_def split: option.splits)

subsection \<open>Appending the execution\<close>

text \<open>
  C1. When the blueprint was loaded and \<^verbatim>\<open>run\<close> returns no error, the name was not in
  the list of deploy executions, and the blueprint in memory is the loaded one with one
  record appended at the end of that list: the given name, the type \<^verbatim>\<open>GoTemplate\<close> and
  the file \<^verbatim>\<open>/<name>DeployExecution.yaml\<close>. The records that were there keep their place
  and content, and so does the rest of the blueprint. The blueprint file then holds the
  encoding of that document.
\<close>

theorem add_appends_execution:
  assumes "readBlueprint P o1 w = Inr blueprint" and "err (run P o1 w) = None"
  shows "name o1 \<notin> set (map Name (DeployExecutions blueprint)) \<and>
         mem (run P o1 w) =
           Some (blueprint\<lparr>DeployExecutions := DeployExecutions blueprint @
             [\<lparr>Name = name o1, Type = ''GoTemplate'',
               File = ''/'' @ name o1 @ ''DeployExecution.yaml''\<rparr>]\<rparr>) \<and>
         nodes (disk (run P o1 w)) (filepath_Join P (blueprintPath o1) (blueprintFilename P)) =
           map_option RegularFile (yaml_Marshal P (addExecution o1 blueprint)) \<and>
         yaml_Marshal P (addExecution o1 blueprint) \<noteq> None"
proof -
  from run_success(1)[OF assms]
  have 1: "name o1 \<notin> set (map Name (DeployExecutions blueprint))"
    by (simp add: existsExecution_iff)
  from run_success(2)[OF assms]
  have 2: "mem (run P o1 w) =
           Some (blueprint\<lparr>DeployExecutions := DeployExecutions blueprint @
             [\<lparr>Name = name o1, Type = ''GoTemplate'',
               File = ''/'' @ name o1 @ ''DeployExecution.yaml''\<rparr>]\<rparr>)"
    by (simp add: addExecution_def getExecutionFileName_def)
  from run_success(3)[OF assms] obtain w1 where
    wr: "writeBlueprint P o1 (addExecution o1 blueprint) w1 = (None, disk (run P o1 w))" ..
  from writeBlueprint_success[OF wr]
  have 3: "nodes (disk (run P o1 w)) (filepath_Join P (blueprintPath o1) (blueprintFilename P)) =
           map_option RegularFile (yaml_Marshal P (addExecution o1 blueprint))"
    and 4: "yaml_Marshal P (addExecution o1 blueprint) \<noteq> None"
    by simp_all
  from 1 2 3 4 show ?thesis by blast
qed

theorem add_appends_execution_witness:
  "readBlueprint toy_platform default_options scenario_B = Inr \<lparr>DeployExecutions = []\<rparr> \<and>
   err (run toy_platform default_options scenario_B) = None \<and>
   mem (run toy_platform default_options scenario_B) =
     Some \<lparr>DeployExecutions = [\<lparr>Name = ''default'', Type = ''GoTemplate'',
                                 File = ''/defaultDeployExecution.yaml''\<rparr>]\<rparr> \<and>
   nodes (disk (run toy_platform default_options scenario_B)) ''bp/blueprint.yaml'' =
     Some (RegularFile ''default GoTemplate /defaultDeployExecution.yaml\<newline>'')"
proof -
  have h1: "readBlueprint toy_platform default_options scenario_B = Inr \<lparr>DeployExecutions = []\<rparr>"
    by (simp add: model_defs toy_defs scenario_B_def)
  have h2: "err (run toy_platform default_options scenario_B) = None"
    by (simp add: model_defs toy_defs scenario_B_def)
  from add_appends_execution[OF h1 h2] h1 h2 show ?thesis
    by (simp add: addExecution_def getExecutionFileName_def toy_defs)
qed

subsection \<open>A name that is already there\<close>

text \<open>
  C2. When the loaded blueprint already has a deploy execution of the given name,
  \<^verbatim>\<open>run\<close> returns the error "The blueprint already contains a deploy execution <name>",
  the blueprint in memory is the loaded one, and the file system is the one it started
  from: no companion file is created and the blueprint file is not rewritten.
\<close>

theorem duplicate_execution_rejected:
  assumes "readBlueprint P o1 w = Inr blueprint"
    and "name o1 \<in> set (map Name (DeployExecutions blueprint))"
  shows "run P o1 w =
           \<lparr>err = Some (Errorf (''The blueprint already contains a deploy execution '' @
                                 name o1 @ ''\<newline>'')),
            mem = Some blueprint, disk = w\<rparr>"
  using assms by (simp add: run_def existsExecution_iff)

theorem duplicate_execution_rejected_witness:
  "readBlueprint toy_platform default_options scenario_C =
     Inr \<lparr>DeployExecutions = [default_execution]\<rparr> \<and>
   ''default'' \<in> set (map Name [default_execution]) \<and>
   run toy_platform default_options scenario_C =
     \<lparr>err = Some (Errorf ''The blueprint already contains a deploy execution default\<newline>''),
      mem = Some \<lparr>DeployExecutions = [default_execution]\<rparr>, disk = scenario_C\<rparr>"
proof -
  have h1: "readBlueprint toy_platform default_options scenario_C =
              Inr \<lparr>DeployExecutions = [default_execution]\<rparr>"
    by (simp add: model_defs toy_defs scenario_C_def)
  have h2: "name default_options \<in>
              set (map Name (DeployExecutions \<lparr>DeployExecutions = [default_execution]\<rparr>))"
    by (simp add: toy_defs)
  from duplicate_execution_rejected[OF h1 h2] h1 h2 show ?thesis
    by (simp add: default_options_def)
qed

subsection \<open>A directory at the companion path\<close>

text \<open>
  C3, as the specification states it: when the existence check finds a directory at the
  companion path it returns both \<^verbatim>\<open>true\<close> and the conflict error, and the caller looks
  at the boolean only and goes on without returning the error. In scenario D the check
  does return both, and \<^verbatim>\<open>run\<close> returns that very error: nothing is appended to the
  blueprint in memory and the file system is left as it was.
\<close>

theorem directory_conflict_ignored_counterexample:
  "existsExecutionFile toy_platform default_options scenario_D =
     (True, Some (Errorf ''There already exists a directory defaultDeployExecution.yaml\<newline>'')) \<and>
   run toy_platform default_options scenario_D =
     \<lparr>err = Some (Errorf ''There already exists a directory defaultDeployExecution.yaml\<newline>''),
      mem = Some \<lparr>DeployExecutions = []\<rparr>, disk = scenario_D\<rparr>"
  by (simp add: model_defs toy_defs scenario_D_def)

text \<open>
  C3, amended: when \<^verbatim>\<open>os.Stat\<close> reports a directory at the companion path,
  \<^verbatim>\<open>existsExecutionFile\<close> returns \<^verbatim>\<open>true\<close> together with the error "There already exists
  a directory <file name>"; \<^verbatim>\<open>run\<close>, having loaded a blueprint without the name, tests
  the error before the boolean and returns it, with the blueprint in memory and the file
  system unchanged.
\<close>

theorem directory_conflict_aborts:
  assumes "readBlueprint P o1 w = Inr blueprint"
    and "\<not> existsExecution o1 blueprint"
    and "os_Stat w (getExecutionFilePath P o1) = Inr Directory"
  shows "existsExecutionFile P o1 w =
           (True, Some (Errorf (''There already exists a directory '' @
                                getExecutionFileName o1 @ ''\<newline>''))) \<and>
         run P o1 w =
           \<lparr>err = Some (Errorf (''There already exists a directory '' @
                                 getExecutionFileName o1 @ ''\<newline>'')),
            mem = Some blueprint, disk = w\<rparr>"
proof -
  from assms(3) have ex: "existsExecutionFile P o1 w =
           (True, Some (Errorf (''There already exists a directory '' @
                                getExecutionFileName o1 @ ''\<newline>'')))"
    by (simp add: existsExecutionFile_def)
  from run_existsExecutionFile_error[OF assms(1,2) ex] ex show ?thesis by simp
qed

theorem directory_conflict_aborts_witness:
  "readBlueprint toy_platform default_options scenario_D = Inr \<lparr>DeployExecutions = []\<rparr> \<and>
   \<not> existsExecution default_options \<lparr>DeployExecutions = []\<rparr> \<and>
   os_Stat scenario_D ''bp/defaultDeployExecution.yaml'' = Inr Directory \<and>
   err (run toy_platform default_options scenario_D) =
     Some (Errorf ''There already exists a directory defaultDeployExecution.yaml\<newline>'') \<and>
   disk (run toy_platform default_options scenario_D) = scenario_D"
proof -
  have h1: "readBlueprint toy_platform default_options scenario_D = Inr \<lparr>DeployExecutions = []\<rparr>"
    by (simp add: model_defs toy_defs scenario_D_def)
  have h2: "\<not> existsExecution default_options \<lparr>DeployExecutions = []\<rparr>"
    by (simp add: existsExecution_def)
  have h3: "os_Stat scenario_D (getExecutionFilePath toy_platform default_options) = Inr Directory"
    by (simp add: model_defs toy_defs scenario_D_def)
  from directory_conflict_aborts[OF h1 h2 h3] h1 h2 h3[unfolded toy_companion_path]
  show ?thesis
    by (simp add: getExecutionFileName_def default_options_def)
qed

text \<open>
  C4. When the loaded blueprint does not have the name and \<^verbatim>\<open>os.Stat\<close> finds a
  directory at the companion path, \<^verbatim>\<open>run\<close> fails with the error "There already exists
  a directory <name>DeployExecution.yaml".
\<close>

theorem directory_at_companion_path_fails:
  assumes "readBlueprint P o1 w = Inr blueprint"
    and "name o1 \<notin> set (map Name (DeployExecutions blueprint))"
    and "nodes w (getExecutionFilePath P o1) = Some Directory"
    and "\<not> stat_fault w (getExecutionFilePath P o1)"
  shows "err (run P o1 w) =
           Some (Errorf (''There already exists a directory '' @
                         name o1 @ ''DeployExecution.yaml\<newline>''))"
proof -
  from assms(2) have ne: "\<not> existsExecution o1 blueprint"
    by (simp add: existsExecution_iff)
  from run_existsExecutionFile_error[OF assms(1) ne existsExecutionFile_Directory[OF assms(3,4)]]
  show ?thesis by simp
qed

theorem directory_at_companion_path_fails_witness:
  "readBlueprint toy_platform default_options scenario_D = Inr \<lparr>DeployExecutions = []\<rparr> \<and>
   ''default'' \<notin> set (map Name []) \<and>
   nodes scenario_D ''bp/defaultDeployExecution.yaml'' = Some Directory \<and>
   \<not> stat_fault scenario_D ''bp/defaultDeployExecution.yaml'' \<and>
   err (run toy_platform default_options scenario_D) =
     Some (Errorf ''There already exists a directory defaultDeployExecution.yaml\<newline>'')"
proof -
  have h1: "readBlueprint toy_platform default_options scenario_D = Inr \<lparr>DeployExecutions = []\<rparr>"
    by (simp add: model_defs toy_defs scenario_D_def)
  have h2: "name default_options \<notin> set (map Name (DeployExecutions \<lparr>DeployExecutions = []\<rparr>))"
    by simp
  have h3: "nodes scenario_D (getExecutionFilePath toy_platform default_options) = Some Directory"
    by (simp add: toy_companion_path) (simp add: scenario_D_def toy_defs)
  have h4: "\<not> stat_fault scenario_D (getExecutionFilePath toy_platform default_options)"
    by (simp add: scenario_D_def toy_defs)
  from directory_at_companion_path_fails[OF h1 h2 h3 h4]
    h1 h3[unfolded toy_companion_path] h4[unfolded toy_companion_path]
  show ?thesis
    by (simp add: default_options_def)
qed

subsection \<open>Names stay distinct\<close>

text \<open>
  C5. When the loaded blueprint has pairwise distinct deploy-execution names, the
  blueprint in memory when \<^verbatim>\<open>run\<close> returns, with or without an error, has pairwise
  distinct names too: \<^verbatim>\<open>run\<close> appends only after \<^verbatim>\<open>existsExecution\<close> found no
  record of the name.
\<close>

theorem execution_names_stay_distinct:
  assumes "readBlueprint P o1 w = Inr blueprint"
    and "distinct (map Name (DeployExecutions blueprint))"
  shows "\<exists>blueprint'. mem (run P o1 w) = Some blueprint' \<and>
           distinct (map Name (DeployExecutions blueprint'))"
  using run_mem_cases[OF assms(1)] assms(2) distinct_addExecution[OF assms(2)]
  by auto

theorem execution_names_stay_distinct_witness:
  "readBlueprint toy_platform default_options scenario_C =
     Inr \<lparr>DeployExecutions = [default_execution]\<rparr> \<and>
   distinct (map Name [default_execution]) \<and>
   (\<exists>blueprint'. mem (run toy_platform default_options scenario_C) = Some blueprint' \<and>
           distinct (map Name (DeployExecutions blueprint')))"
proof -
  have h1: "readBlueprint toy_platform default_options scenario_C =
              Inr \<lparr>DeployExecutions = [default_execution]\<rparr>"
    by (simp add: model_defs toy_defs scenario_C_def)
  have h2: "distinct (map Name (DeployExecutions \<lparr>DeployExecutions = [default_execution]\<rparr>))"
    by simp
  from execution_names_stay_distinct[OF h1 h2] h1 h2 show ?thesis by simp
qed

subsection \<open>The companion file\<close>

text \<open>
  C6. When the blueprint was loaded without the name and \<^verbatim>\<open>os.Stat\<close> on the companion
  path fails with a not-exist error, \<^verbatim>\<open>run\<close> creates the companion file: unless
  \<^verbatim>\<open>os.Create\<close> or the write fails on that path, in which case \<^verbatim>\<open>run\<close> returns that
  error, the file holds exactly \<^verbatim>\<open>deployItems: []\<close> and a newline when \<^verbatim>\<open>run\<close> returns.
  The companion path is assumed to differ from the path the blueprint is written to.
\<close>

theorem absent_companion_file_created:
  assumes "readBlueprint P o1 w = Inr blueprint"
    and "name o1 \<notin> set (map Name (DeployExecutions blueprint))"
    and "os_Stat w (getExecutionFilePath P o1) = Inl e" and "os_IsNotExist e"
    and "getExecutionFilePath P o1 \<noteq> filepath_Join P (blueprintPath o1) (blueprintFilename P)"
  shows "if create_fault w (getExecutionFilePath P o1) \<or>
            write_fault w (getExecutionFilePath P o1) \<noteq> None
         then err (run P o1 w) = Some (IOError (getExecutionFilePath P o1))
         else nodes (disk (run P o1 w)) (getExecutionFilePath P o1) =
                Some (RegularFile ''deployItems: []\<newline>'')"
proof -
  from assms(2) have ne: "\<not> existsExecution o1 blueprint"
    by (simp add: existsExecution_iff)
  note r = run_file_absent[OF assms(1) ne existsExecutionFile_NotExist[OF assms(3,4)]]
  note c = createExecutionFile_absent[OF os_Stat_NotExist[OF assms(3,4)]]
  show ?thesis
  proof (cases "create_fault w (getExecutionFilePath P o1) \<or>
            write_fault w (getExecutionFilePath P o1) \<noteq> None")
    case True
    with r c show ?thesis by (auto split: option.splits)
  next
    case False
    with r c writeBlueprint_frame[OF assms(5)] show ?thesis by simp
  qed
qed

theorem absent_companion_file_created_witness:
  "readBlueprint toy_platform default_options scenario_B = Inr \<lparr>DeployExecutions = []\<rparr> \<and>
   ''default'' \<notin> set (map Name []) \<and>
   os_Stat scenario_B ''bp/defaultDeployExecution.yaml'' =
     Inl (NotExist ''bp/defaultDeployExecution.yaml'') \<and>
   os_IsNotExist (NotExist ''bp/defaultDeployExecution.yaml'') \<and>
   ''bp/defaultDeployExecution.yaml'' \<noteq> ''bp/blueprint.yaml'' \<and>
   nodes (disk (run toy_platform default_options scenario_B)) ''bp/defaultDeployExecution.yaml'' =
     Some (RegularFile ''deployItems: []\<newline>'')"
proof -
  have h1: "readBlueprint toy_platform default_options scenario_B = Inr \<lparr>DeployExecutions = []\<rparr>"
    by (simp add: model_defs toy_defs scenario_B_def)
  have h2: "name default_options \<notin> set (map Name (DeployExecutions \<lparr>DeployExecutions = []\<rparr>))"
    by simp
  have h3: "os_Stat scenario_B (getExecutionFilePath toy_platform default_options) =
              Inl (NotExist ''bp/defaultDeployExecution.yaml'')"
    by (simp add: toy_companion_path) (simp add: os_Stat_def scenario_B_def toy_defs)
  have h4: "os_IsNotExist (NotExist ''bp/defaultDeployExecution.yaml'')"
    by simp
  have h5: "getExecutionFilePath toy_platform default_options \<noteq>
              filepath_Join toy_platform (blueprintPath default_options)
                (blueprintFilename toy_platform)"
    by (simp add: toy_companion_path) (simp add: toy_defs)
  have f: "\<not> create_fault scenario_B ''bp/defaultDeployExecution.yaml''"
    "write_fault scenario_B ''bp/defaultDeployExecution.yaml'' = None"
    by (simp_all add: scenario_B_def toy_defs)
  from absent_companion_file_created[OF h1 h2 h3 h4 h5] h1 h3[unfolded toy_companion_path] f show ?thesis
    by (simp add: toy_companion_path)
qed

text \<open>
  C7. A regular file at the companion path is neither created anew nor overwritten: its
  content after \<^verbatim>\<open>run\<close> is its content before, whatever \<^verbatim>\<open>run\<close> returns. The
  companion path is assumed to differ from the path the blueprint is written to.
\<close>

theorem existing_companion_file_kept:
  assumes "nodes w (getExecutionFilePath P o1) = Some (RegularFile content)"
    and "getExecutionFilePath P o1 \<noteq> filepath_Join P (blueprintPath o1) (blueprintFilename P)"
  shows "nodes (disk (run P o1 w)) (getExecutionFilePath P o1) = Some (RegularFile content)"
proof -
  from assms(1) have ne: "existsExecutionFile P o1 w \<noteq> (False, None)"
    using existsExecutionFile_False by fastforce
  with run_disk_cases[of P o1 w] consider "disk (run P o1 w) = w"
    | b where "disk (run P o1 w) = snd (writeBlueprint P o1 b w)"
    by blast
  then show ?thesis
  proof cases
    case 1
    with assms(1) show ?thesis by simp
  next
    case 2
    with writeBlueprint_frame[OF assms(2)] assms(1) show ?thesis by simp
  qed
qed

theorem existing_companion_file_kept_witness:
  "nodes scenario_E ''bp/defaultDeployExecution.yaml'' = Some (RegularFile ''deployItems: [kept]'') \<and>
   ''bp/defaultDeployExecution.yaml'' \<noteq> ''bp/blueprint.yaml'' \<and>
   err (run toy_platform default_options scenario_E) = None \<and>
   nodes (disk (run toy_platform default_options scenario_E)) ''bp/defaultDeployExecution.yaml'' =
     Some (RegularFile ''deployItems: [kept]'')"
proof -
  have h1: "nodes scenario_E (getExecutionFilePath toy_platform default_options) =
              Some (RegularFile ''deployItems: [kept]'')"
    by (simp add: toy_companion_path) (simp add: scenario_E_def toy_defs)
  have h2: "getExecutionFilePath toy_platform default_options \<noteq>
              filepath_Join toy_platform (blueprintPath default_options)
                (blueprintFilename toy_platform)"
    by (simp add: toy_companion_path) (simp add: toy_defs)
  have h3: "err (run toy_platform default_options scenario_E) = None"
    by (simp add: model_defs toy_defs scenario_E_def)
  from existing_companion_file_kept[OF h1 h2] h1[unfolded toy_companion_path] h3 show ?thesis
    by (simp add: toy_companion_path)
qed

subsection \<open>Loading fails\<close>

text \<open>
  C9. When there is no file at the blueprint path, or a directory, or the file cannot be
  read, or its content does not decode, \<^verbatim>\<open>run\<close> returns the error of
  \<^verbatim>\<open>readBlueprint\<close>, no blueprint is in memory and the file system is the one it started
  from: no file is created or overwritten.
\<close>

theorem load_failure_touches_nothing:
  assumes "nodes w (filepath_Join P (blueprintPath o1) (BlueprintFileName P)) = None \<or>
           nodes w (filepath_Join P (blueprintPath o1) (BlueprintFileName P)) = Some Directory \<or>
           read_fault w (filepath_Join P (blueprintPath o1) (BlueprintFileName P)) \<or>
           (\<exists>data. nodes w (filepath_Join P (blueprintPath o1) (BlueprintFileName P)) =
                     Some (RegularFile data) \<and> Decode P data = None)"
  shows "run P o1 w =
           \<lparr>err = Some
              (if read_fault w (filepath_Join P (blueprintPath o1) (BlueprintFileName P))
               then IOError (filepath_Join P (blueprintPath o1) (BlueprintFileName P))
               else case nodes w (filepath_Join P (blueprintPath o1) (BlueprintFileName P)) of
                      None \<Rightarrow> NotExist (filepath_Join P (blueprintPath o1) (BlueprintFileName P))
                    | Some Directory \<Rightarrow>
                        IOError (filepath_Join P (blueprintPath o1) (BlueprintFileName P))
                    | Some (RegularFile data) \<Rightarrow> DecodeError),
            mem = None, disk = w\<rparr>"
  using assms
  by (auto simp: run_def readBlueprint_def ioutil_ReadFile_def)

theorem load_failure_touches_nothing_witness:
  "nodes scenario_A ''bp/blueprint.yaml'' = None \<and>
   run toy_platform default_options scenario_A =
     \<lparr>err = Some (NotExist ''bp/blueprint.yaml''), mem = None, disk = scenario_A\<rparr>"
proof -
  have p: "filepath_Join toy_platform (blueprintPath default_options)
             (BlueprintFileName toy_platform) = ''bp/blueprint.yaml''"
    by (simp add: toy_defs)
  have h: "nodes scenario_A ''bp/blueprint.yaml'' = None"
    by (simp add: scenario_A_def toy_defs)
  have f: "\<not> read_fault scenario_A ''bp/blueprint.yaml''"
    by (simp add: scenario_A_def toy_defs)
  from load_failure_touches_nothing[of scenario_A toy_platform default_options, unfolded p] h f
  show ?thesis by simp
qed

subsection \<open>Completing the arguments\<close>

text \<open>
  C10. On two arguments \<^verbatim>\<open>Complete\<close> stores them and returns \<^verbatim>\<open>nil\<close>, whatever the
  strings are. With the empty name the companion file is named
  \<^verbatim>\<open>DeployExecution.yaml\<close> and the appended record refers to
  \<^verbatim>\<open>/DeployExecution.yaml\<close>; in scenario B the command runs through with it and
  creates that file.
\<close>

theorem Complete_accepts_any_pair:
  "Complete o1 [path, n] = Some (o1\<lparr>blueprintPath := path, name := n\<rparr>, None) \<and>
   getExecutionFileName (o1\<lparr>blueprintPath := path, name := []\<rparr>) = ''DeployExecution.yaml'' \<and>
   DeployExecutions (addExecution (o1\<lparr>blueprintPath := path, name := []\<rparr>) blueprint) =
     DeployExecutions blueprint @
       [\<lparr>Name = [], Type = ''GoTemplate'', File = ''/DeployExecution.yaml''\<rparr>] \<and>
   Complete o1 [''bp'', []] = Some (empty_name_options, None) \<and>
   err (run toy_platform empty_name_options scenario_B) = None \<and>
   nodes (disk (run toy_platform empty_name_options scenario_B)) ''bp/DeployExecution.yaml'' =
     Some (RegularFile ''deployItems: []\<newline>'')"
  by (simp add: model_defs toy_defs empty_name_options_def scenario_B_def)

end
